theory Spec2Isabelle
  imports Main
begin

section \<open>Python values and exceptions\<close>

text \<open>
  The client works on the values that \<^verbatim>\<open>response.json()\<close> returns: \<open>None\<close>, booleans,
  integers, strings, lists and dicts with string keys. A dict is an association list in
  which the first binding of a key is the dict's entry. JSON numbers with a fraction
  (Python floats) are outside this model.
\<close>

datatype json =
    JNull
  | JBool bool
  | JInt int
  | JStr string
  | JList "json list"
  | JObj "(string \<times> json) list"

text \<open>
  The five exception classes of \<^verbatim>\<open>errors.py\<close>, each with the argument it is raised with,
  and the built-in exceptions the code can run into. \<^verbatim>\<open>_validate_result\<close> raises
  \<^verbatim>\<open>UnknownError(json.dumps(result, indent=4))\<close>: the message is the rendering of the whole
  response, which is represented here by the response value that is rendered.
\<close>

datatype error =
    EmailExistsError string
  | LoginExistsError string
  | UserNotFoundError string
  | BadCredentialsError string
  | UnknownError json
  | KeyError string
  | TypeError
  | AttributeError string
  | ConnectionError

text \<open>Truth value of a Python value, as \<^verbatim>\<open>not x\<close> and \<^verbatim>\<open>any\<close> test it.\<close>

fun truthy :: "json \<Rightarrow> bool" where
  "truthy JNull = False"
| "truthy (JBool b) = b"
| "truthy (JInt n) = (n \<noteq> 0)"
| "truthy (JStr s) = (s \<noteq> [])"
| "truthy (JList xs) = (xs \<noteq> [])"
| "truthy (JObj kvs) = (kvs \<noteq> [])"

text \<open>\<^verbatim>\<open>x[key]\<close> with a string key: only a dict can be indexed that way.\<close>

fun getitem :: "json \<Rightarrow> string \<Rightarrow> error + json" where
  "getitem (JObj kvs) k = (case map_of kvs k of None \<Rightarrow> Inl (KeyError k) | Some v \<Rightarrow> Inr v)"
| "getitem _ k = Inl TypeError"

fun is_substring :: "string \<Rightarrow> string \<Rightarrow> bool" where
  "is_substring sub [] = (sub = [])"
| "is_substring sub (c # cs) = (take (length sub) (c # cs) = sub \<or> is_substring sub cs)"

text \<open>\<^verbatim>\<open>key in x\<close> for a string \<open>key\<close>.\<close>

fun str_in :: "string \<Rightarrow> json \<Rightarrow> error + bool" where
  "str_in k (JObj kvs) = Inr (map_of kvs k \<noteq> None)"
| "str_in k (JList xs) = Inr (JStr k \<in> set xs)"
| "str_in k (JStr s) = Inr (is_substring k s)"
| "str_in k _ = Inl TypeError"

text \<open>\<^verbatim>\<open>n == v\<close> for an integer \<open>n\<close>: Python's \<open>True\<close> and \<open>False\<close> equal 1 and 0.\<close>

fun eq_int :: "int \<Rightarrow> json \<Rightarrow> bool" where
  "eq_int n (JInt m) = (m = n)"
| "eq_int n (JBool b) = (n = (if b then 1 else 0))"
| "eq_int n _ = False"

text \<open>
  \<^verbatim>\<open>n in x\<close> for an integer \<open>n\<close>: a list is searched for an equal element, a dict for
  an equal key (its keys are strings), and every other value raises \<open>TypeError\<close>.
\<close>

fun int_in :: "int \<Rightarrow> json \<Rightarrow> error + bool" where
  "int_in n (JList xs) = Inr (list_ex (eq_int n) xs)"
| "int_in n (JObj kvs) = Inr False"
| "int_in n _ = Inl TypeError"

text \<open>\<^verbatim>\<open>any(x)\<close>: iterates a list's elements, a dict's keys, a string's characters.\<close>

fun py_any :: "json \<Rightarrow> error + bool" where
  "py_any (JList xs) = Inr (list_ex truthy xs)"
| "py_any (JObj kvs) = Inr (list_ex (\<lambda>kv. fst kv \<noteq> []) kvs)"
| "py_any (JStr s) = Inr (s \<noteq> [])"
| "py_any _ = Inl TypeError"

section \<open>The client's world: session token, requests sent, responses to come\<close>

datatype http_method = GET | POST | DELETE

text \<open>
  What is handed to \<^verbatim>\<open>requests.get/post/delete\<close>. The body is
  \<^verbatim>\<open>json.dumps(d).encode()\<close> for a dict \<open>d\<close>; it is represented by \<open>d\<close>.
\<close>

record request =
  verb :: http_method
  url :: string
  headers :: "(string \<times> json) list"
  data :: "json option"

text \<open>
  \<open>token\<close> is the client's \<^verbatim>\<open>_token\<close> (\<open>None\<close>, that is \<open>JNull\<close>, in a fresh client).
  The transport is outside the repository: \<open>sent\<close> logs the requests in the order they
  are issued and \<open>inbox\<close> holds the decoded bodies the server will answer with, in order.
\<close>

record world =
  token :: json
  sent :: "request list"
  inbox :: "json list"

type_synonym 'a action = "world \<Rightarrow> (error + 'a) \<times> world"

definition returns :: "'a \<Rightarrow> 'a action" where
  "returns x w = (Inr x, w)"

definition raises :: "error \<Rightarrow> 'a action" where
  "raises e w = (Inl e, w)"

definition lift :: "error + 'a \<Rightarrow> 'a action" where
  "lift r w = (r, w)"

definition and_then :: "'a action \<Rightarrow> ('a \<Rightarrow> 'b action) \<Rightarrow> 'b action" where
  "and_then m f w = (case m w of (Inl e, w') \<Rightarrow> (Inl e, w') | (Inr x, w') \<Rightarrow> f x w')"

text \<open>
  Calling an \<^verbatim>\<open>async def\<close> function runs nothing: it returns a coroutine object, and
  the body runs when that object is awaited.
\<close>

datatype 'a coroutine = Coroutine "'a action"

fun await :: "'a coroutine \<Rightarrow> 'a action" where
  "await (Coroutine m) = m"

section \<open>Validation of a response\<close>

definition validate_result :: "json \<Rightarrow> unit coroutine" where
  "validate_result result = Coroutine (
     and_then (lift (str_in ''err'' result)) (\<lambda>present.
     if \<not> present then returns () else
     and_then (lift (getitem result ''err'')) (\<lambda>err.
     if \<not> truthy err then returns () else
     and_then (lift (int_in 100 err)) (\<lambda>c100.
     if c100 then raises (EmailExistsError ''Specified email already exists'') else
     and_then (lift (int_in 101 err)) (\<lambda>c101.
     if c101 then raises (LoginExistsError ''Specified login already exists'') else
     and_then (lift (int_in 102 err)) (\<lambda>c102.
     if c102 then raises (UserNotFoundError ''Specified user not found'') else
     and_then (lift (int_in 103 err)) (\<lambda>c103.
     if c103 then raises (BadCredentialsError ''Specified password is invalid'') else
     and_then (lift (py_any err)) (\<lambda>nonzero.
     if nonzero then raises (UnknownError result) else returns ()))))))))"


section \<open>Requests\<close>

text \<open>An integer inside an f-string: its decimal digits, with a minus sign when negative.\<close>

definition digit_char :: "nat \<Rightarrow> char" where
  "digit_char d = char_of (48 + d)"

fun digits :: "nat \<Rightarrow> string" where
  "digits n = (if n < 10 then [digit_char n] else digits (n div 10) @ [digit_char (n mod 10)])"

declare digits.simps [simp del]

definition str_int :: "int \<Rightarrow> string" where
  "str_int i = (if i < 0 then CHR ''-'' # digits (nat (- i)) else digits (nat i))"

text \<open>The three headers every request carries, and the fourth of the authenticated ones.\<close>

definition base_headers :: "(string \<times> json) list" where
  "base_headers =
     [(''accept'', JStr ''application/json''),
      (''content-type'', JStr ''application/x-www-form-urlencoded''),
      (''user-agent'', JStr ''Python SDK'')]"

definition auth_headers :: "json \<Rightarrow> (string \<times> json) list" where
  "auth_headers tok = base_headers @ [(''access-token'', tok)]"

definition get_token :: "json action" where
  "get_token w = (Inr (token w), w)"

definition set_token :: "json \<Rightarrow> unit action" where
  "set_token t w = (Inr (), w\<lparr>token := t\<rparr>)"

text \<open>
  \<^verbatim>\<open>(await run_sync(requests.X, url, headers=..., data=...)).json()\<close>: the request goes
  out, and the next body of the inbox comes back decoded; with no answer left the
  transport fails.
\<close>

definition http_json :: "request \<Rightarrow> json action" where
  "http_json req w =
     (case inbox w of
        [] \<Rightarrow> (Inl ConnectionError, w\<lparr>sent := sent w @ [req]\<rparr>)
      | r # rs \<Rightarrow> (Inr r, w\<lparr>sent := sent w @ [req], inbox := rs\<rparr>))"

section \<open>Entities\<close>

text \<open>
  The dataclasses of \<^verbatim>\<open>types.py\<close>. A \<open>Comment\<close> is built from the entries of a response
  without any check, so its fields hold whatever the server sent.
\<close>

record User =
  uid :: json
  nickname :: json
  comment :: json
  created_at :: json

record Post =
  uid :: json
  url :: json
  media :: json
  text' :: json
  user :: User
  likes_count :: json
  comments_count :: json
  created_at :: json

record Comment =
  uid :: json
  nickname :: json
  comment :: json
  created_at :: json

section \<open>Operations of the client\<close>

text \<open>
  Every operation is an \<^verbatim>\<open>async def\<close>. Each one calls
  \<^verbatim>\<open>self._validate_result(result)\<close> as a plain statement, without \<^verbatim>\<open>await\<close>: the
  coroutine object is made and dropped.
\<close>

definition login :: "string \<Rightarrow> string \<Rightarrow> bool coroutine" where
  "login login' password = Coroutine (
     and_then (http_json \<lparr>verb = POST, url = ''https://api.grustnogram.ru/sessions'',
        headers = base_headers,
        data = Some (JObj [(''email'', JStr login'), (''password'', JStr password)])\<rparr>) (\<lambda>result.
     let _ = validate_result result in
     and_then (lift (getitem result ''data'')) (\<lambda>d.
     and_then (lift (getitem d ''access_token'')) (\<lambda>t.
     and_then (set_token t) (\<lambda>_.
     returns True)))))"

definition register :: "string \<Rightarrow> string \<Rightarrow> string \<Rightarrow> string \<Rightarrow> (unit \<Rightarrow> json) \<Rightarrow> bool coroutine" where
  "register nickname' email password phone code_handler = Coroutine (
     and_then (http_json \<lparr>verb = POST, url = ''https://api.grustnogram.ru/users'',
        headers = base_headers,
        data = Some (JObj [(''nickname'', JStr nickname'), (''email'', JStr email),
                           (''password'', JStr password), (''password_confirm'', JStr password)])\<rparr>) (\<lambda>result.
     let _ = validate_result result in
     and_then (lift (getitem result ''data'')) (\<lambda>d.
     and_then (lift (getitem d ''phone_key'')) (\<lambda>phone_key.
     and_then (http_json \<lparr>verb = POST, url = ''https://api.grustnogram.ru/callme'',
        headers = base_headers,
        data = Some (JObj [(''phone_key'', phone_key), (''phone'', JStr phone)])\<rparr>) (\<lambda>result.
     let _ = validate_result result in
     let code = code_handler () in
     and_then (http_json \<lparr>verb = POST, url = ''https://api.grustnogram.ru/phoneactivate'',
        headers = base_headers,
        data = Some (JObj [(''code'', code), (''phone'', JStr phone)])\<rparr>) (\<lambda>result.
     let _ = validate_result result in
     and_then (lift (getitem result ''data'')) (\<lambda>d.
     and_then (lift (getitem d ''access_token'')) (\<lambda>t.
     and_then (set_token t) (\<lambda>_.
     returns True)))))))))"

definition like_post :: "int \<Rightarrow> bool coroutine" where
  "like_post post_id = Coroutine (
     and_then get_token (\<lambda>tok.
     and_then (http_json \<lparr>verb = POST,
        url = ''https://api.grustnogram.ru/posts/'' @ str_int post_id @ ''/like'',
        headers = auth_headers tok, data = None\<rparr>) (\<lambda>result.
     let _ = validate_result result in
     returns True)))"

definition dislike_post :: "int \<Rightarrow> bool coroutine" where
  "dislike_post post_id = Coroutine (
     and_then get_token (\<lambda>tok.
     and_then (http_json \<lparr>verb = DELETE,
        url = ''https://api.grustnogram.ru/posts/'' @ str_int post_id @ ''/like'',
        headers = auth_headers tok, data = None\<rparr>) (\<lambda>result.
     let _ = validate_result result in
     returns True)))"

definition like_comment :: "int \<Rightarrow> bool coroutine" where
  "like_comment comment_id = Coroutine (
     and_then get_token (\<lambda>tok.
     and_then (http_json \<lparr>verb = POST,
        url = ''https://api.grustnogram.ru/comments/'' @ str_int comment_id @ ''/like'',
        headers = auth_headers tok, data = None\<rparr>) (\<lambda>result.
     let _ = validate_result result in
     returns True)))"

definition dislike_comment :: "int \<Rightarrow> bool coroutine" where
  "dislike_comment comment_id = Coroutine (
     and_then get_token (\<lambda>tok.
     and_then (http_json \<lparr>verb = DELETE,
        url = ''https://api.grustnogram.ru/comments/'' @ str_int comment_id @ ''/like'',
        headers = auth_headers tok, data = None\<rparr>) (\<lambda>result.
     let _ = validate_result result in
     returns True)))"

text \<open>\<^verbatim>\<open>Comment(c["id"], c["nickname"], c["comment"], c["created_at"])\<close>, left to right.\<close>

definition comment_of :: "json \<Rightarrow> error + Comment" where
  "comment_of c =
     (case getitem c ''id'' of Inl e \<Rightarrow> Inl e | Inr i \<Rightarrow>
     (case getitem c ''nickname'' of Inl e \<Rightarrow> Inl e | Inr n \<Rightarrow>
     (case getitem c ''comment'' of Inl e \<Rightarrow> Inl e | Inr t \<Rightarrow>
     (case getitem c ''created_at'' of Inl e \<Rightarrow> Inl e | Inr a \<Rightarrow>
        Inr \<lparr>uid = i, nickname = n, comment = t, created_at = a\<rparr>))))"

definition comment_post :: "int \<Rightarrow> string \<Rightarrow> Comment coroutine" where
  "comment_post post_id comment' = Coroutine (
     and_then get_token (\<lambda>tok.
     and_then (http_json \<lparr>verb = POST,
        url = ''https://api.grustnogram.ru/posts/'' @ str_int post_id @ ''/comments'',
        headers = auth_headers tok,
        data = Some (JObj [(''comment'', JStr comment')])\<rparr>) (\<lambda>result.
     let _ = validate_result result in
     and_then (lift (getitem result ''data'')) (\<lambda>d.
     lift (comment_of d)))))"

definition delete_comment :: "int \<Rightarrow> bool coroutine" where
  "delete_comment comment_id = Coroutine (
     and_then get_token (\<lambda>tok.
     and_then (http_json \<lparr>verb = DELETE,
        url = ''https://api.grustnogram.ru/posts/comment/'' @ str_int comment_id,
        headers = auth_headers tok, data = None\<rparr>) (\<lambda>result.
     let _ = validate_result result in
     returns True)))"

text \<open>
  The list comprehension of \<^verbatim>\<open>get_comments\<close> over the elements it iterates: it stops at
  the first element that raises.
\<close>

fun comments_of :: "json list \<Rightarrow> error + Comment list" where
  "comments_of [] = Inr []"
| "comments_of (c # cs) =
     (case comment_of c of Inl e \<Rightarrow> Inl e | Inr x \<Rightarrow>
     (case comments_of cs of Inl e \<Rightarrow> Inl e | Inr xs \<Rightarrow> Inr (x # xs)))"

text \<open>
  \<^verbatim>\<open>for comment in v\<close>: a list gives its elements, a dict its keys, a string its
  characters (one-character strings); nothing else can be iterated.
\<close>

fun iterate :: "json \<Rightarrow> error + json list" where
  "iterate (JList xs) = Inr xs"
| "iterate (JObj kvs) = Inr (map (\<lambda>kv. JStr (fst kv)) kvs)"
| "iterate (JStr s) = Inr (map (\<lambda>c. JStr [c]) s)"
| "iterate _ = Inl TypeError"

definition get_comments :: "int \<Rightarrow> int \<Rightarrow> int \<Rightarrow> Comment list coroutine" where
  "get_comments post_id limit offset = Coroutine (
     and_then get_token (\<lambda>tok.
     and_then (http_json \<lparr>verb = GET,
        url = ''https://api.grustnogram.ru/posts/'' @ str_int post_id @ ''/comments'',
        headers = auth_headers tok,
        data = Some (JObj [(''limit'', JInt limit), (''offset'', JInt offset)])\<rparr>) (\<lambda>result.
     let _ = validate_result result in
     and_then (lift (getitem result ''data'')) (\<lambda>d.
     and_then (lift (iterate d)) (\<lambda>elems.
     lift (comments_of elems))))))"

text \<open>\<open>text_opt\<close> is \<open>None\<close> when the caller leaves the optional argument out.\<close>

definition complaint :: "int \<Rightarrow> int \<Rightarrow> string option \<Rightarrow> bool coroutine" where
  "complaint post_id complaint_type text_opt = Coroutine (
     and_then get_token (\<lambda>tok.
     and_then (http_json \<lparr>verb = POST,
        url = ''https://api.grustnogram.ru/posts/'' @ str_int post_id @ ''/complaint'',
        headers = auth_headers tok,
        data = Some (JObj [(''type'', JInt complaint_type),
                           (''text'', case text_opt of None \<Rightarrow> JNull | Some s \<Rightarrow> JStr s)])\<rparr>) (\<lambda>result.
     let _ = validate_result result in
     returns True)))"

definition delete_post :: "int \<Rightarrow> bool coroutine" where
  "delete_post post_id = Coroutine (
     and_then get_token (\<lambda>tok.
     and_then (http_json \<lparr>verb = DELETE,
        url = ''https://api.grustnogram.ru/posts/'' @ str_int post_id,
        headers = auth_headers tok, data = None\<rparr>) (\<lambda>result.
     let _ = validate_result result in
     returns True)))"


section \<open>Convenience methods of the entities\<close>

text \<open>
  Each method starts with \<^verbatim>\<open>self._client\<close>. \<open>_client\<close> is not a field of the dataclass,
  the class has no attribute of that name, and nothing in the repository assigns it: the
  attribute lookup raises on every object the constructor builds.
\<close>

definition Comment_client :: "Comment \<Rightarrow> json action" where
  "Comment_client self = raises (AttributeError ''_client'')"

definition Post_client :: "Post \<Rightarrow> json action" where
  "Post_client self = raises (AttributeError ''_client'')"

text \<open>\<^verbatim>\<open>await obj.name(args)\<close> on a value that has no method of that name.\<close>

definition call_method :: "json \<Rightarrow> string \<Rightarrow> json list \<Rightarrow> json action" where
  "call_method obj name args = raises (AttributeError name)"

text \<open>The methods have no \<^verbatim>\<open>return\<close> (they give \<open>None\<close>), \<^verbatim>\<open>Post.comment\<close> apart.\<close>

definition Comment_delete :: "Comment \<Rightarrow> unit coroutine" where
  "Comment_delete self = Coroutine (
     and_then (Comment_client self) (\<lambda>client.
     and_then (call_method client ''delete_comment'' [Comment.uid self]) (\<lambda>_.
     returns ())))"

definition Comment_like :: "Comment \<Rightarrow> unit coroutine" where
  "Comment_like self = Coroutine (
     and_then (Comment_client self) (\<lambda>client.
     and_then (call_method client ''like_comment'' [Comment.uid self]) (\<lambda>_.
     returns ())))"

definition Comment_dislike :: "Comment \<Rightarrow> unit coroutine" where
  "Comment_dislike self = Coroutine (
     and_then (Comment_client self) (\<lambda>client.
     and_then (call_method client ''dislike_comment'' [Comment.uid self]) (\<lambda>_.
     returns ())))"

definition Post_delete :: "Post \<Rightarrow> unit coroutine" where
  "Post_delete self = Coroutine (
     and_then (Post_client self) (\<lambda>client.
     and_then (call_method client ''delete_post'' [Post.uid self]) (\<lambda>_.
     returns ())))"

definition Post_like :: "Post \<Rightarrow> unit coroutine" where
  "Post_like self = Coroutine (
     and_then (Post_client self) (\<lambda>client.
     and_then (call_method client ''like_post'' [Post.uid self]) (\<lambda>_.
     returns ())))"

definition Post_dislike :: "Post \<Rightarrow> unit coroutine" where
  "Post_dislike self = Coroutine (
     and_then (Post_client self) (\<lambda>client.
     and_then (call_method client ''dislike_post'' [Post.uid self]) (\<lambda>_.
     returns ())))"

definition Post_comment :: "Post \<Rightarrow> string \<Rightarrow> json coroutine" where
  "Post_comment self text_arg = Coroutine (
     and_then (Post_client self) (\<lambda>client.
     call_method client ''comment_post'' [Post.uid self, JStr text_arg]))"


section \<open>Running the definitions\<close>

lemmas run_defs =
  and_then_def returns_def raises_def lift_def get_token_def set_token_def http_json_def

lemma int_in_JInt_list: "int_in n (JList (map JInt codes)) = Inr (n \<in> set codes)"
  by (induction codes) auto

lemma py_any_JInt_list: "py_any (JList (map JInt codes)) = Inr (\<exists>c\<in>set codes. c \<noteq> 0)"
  by (induction codes) auto

lemma str_int_42: "str_int 42 = ''42''"
  by code_simp

lemma getitem_error: "getitem v k = Inl e \<Longrightarrow> e = KeyError k \<or> e = TypeError"
  by (cases v) (auto split: option.splits)

section \<open>Validation\<close>

text \<open>
  The body of \<^verbatim>\<open>_validate_result\<close>, had it been awaited, on a response whose \<open>err\<close> entry
  is a list of integer codes: the outcome is fixed by the first test that matches, in the
  order 100, 101, 102, 103, and with none of the four present and some nonzero code in the
  list it is \<open>UnknownError\<close> made from the whole response.
\<close>

lemma validate_result_body_priority:
  assumes "map_of r ''err'' = Some (JList (map JInt codes))"
  shows "await (validate_result (JObj r)) w =
    (if 100 \<in> set codes then Inl (EmailExistsError ''Specified email already exists'')
     else if 101 \<in> set codes then Inl (LoginExistsError ''Specified login already exists'')
     else if 102 \<in> set codes then Inl (UserNotFoundError ''Specified user not found'')
     else if 103 \<in> set codes then Inl (BadCredentialsError ''Specified password is invalid'')
     else if \<exists>c\<in>set codes. c \<noteq> 0 then Inl (UnknownError (JObj r))
     else Inr (), w)"
  using assms
  by (simp add: validate_result_def run_defs int_in_JInt_list py_any_JInt_list
           del: int_in.simps py_any.simps)

text \<open>There a response with both 103 and 100 gives \<open>EmailExistsError\<close>, one with 7 \<open>UnknownError\<close>.\<close>

lemma validate_result_body_priority_example:
  "await (validate_result (JObj [(''err'', JList [JInt 103, JInt 100]), (''data'', JNull)]))
         \<lparr>token = JNull, sent = [], inbox = []\<rparr>
     = (Inl (EmailExistsError ''Specified email already exists''),
        \<lparr>token = JNull, sent = [], inbox = []\<rparr>)
   \<and> await (validate_result (JObj [(''err'', JList [JInt 7, JInt 0])]))
         \<lparr>token = JNull, sent = [], inbox = []\<rparr>
     = (Inl (UnknownError (JObj [(''err'', JList [JInt 7, JInt 0])])),
        \<lparr>token = JNull, sent = [], inbox = []\<rparr>)"
  using validate_result_body_priority
          [of "[(''err'', JList [JInt 103, JInt 100]), (''data'', JNull)]" "[103, 100]"
              "\<lparr>token = JNull, sent = [], inbox = []\<rparr>"]
        validate_result_body_priority
          [of "[(''err'', JList [JInt 7, JInt 0])]" "[7, 0]"
              "\<lparr>token = JNull, sent = [], inbox = []\<rparr>"]
  by simp

text \<open>
  Claim C1. No operation awaits \<^verbatim>\<open>_validate_result\<close>, so the error codes of an answer are
  never turned into the typed errors. \<open>register\<close> answered with
  \<^verbatim>\<open>{"err": [100, 103]}\<close> ends in \<^verbatim>\<open>KeyError('data')\<close>, raised by the extraction of the
  phone key, and not in \<open>EmailExistsError\<close>; \<open>like_post\<close> answered with \<^verbatim>\<open>{"err": [7]}\<close>
  returns \<open>True\<close> and raises no \<open>UnknownError\<close>.
\<close>

theorem register_err_100_KeyError:
  "fst (await (register ''ann'' ''ann@example.org'' ''pw'' ''+70000000000'' (\<lambda>_. JStr ''1234''))
          \<lparr>token = JNull, sent = [],
           inbox = [JObj [(''err'', JList [JInt 100, JInt 103])]]\<rparr>)
     = Inl (KeyError ''data'')
   \<and> fst (await (like_post 42)
          \<lparr>token = JStr ''tok-abc'', sent = [], inbox = [JObj [(''err'', JList [JInt 7])]]\<rparr>)
     = Inr True"
  by (simp add: register_def like_post_def run_defs)

text \<open>
  Whatever the server answers, \<open>register\<close> raises none of the five errors of
  \<^verbatim>\<open>errors.py\<close>, and an authenticated operation that has its answer returns \<open>True\<close>.
\<close>

lemma register_never_typed_error:
  "fst (await (register nick email password phone code_handler) w) \<noteq> Inl (EmailExistsError m)
   \<and> fst (await (register nick email password phone code_handler) w) \<noteq> Inl (LoginExistsError m)
   \<and> fst (await (register nick email password phone code_handler) w) \<noteq> Inl (UserNotFoundError m)
   \<and> fst (await (register nick email password phone code_handler) w) \<noteq> Inl (BadCredentialsError m)
   \<and> fst (await (register nick email password phone code_handler) w) \<noteq> Inl (UnknownError j)"
  by (auto simp add: register_def run_defs Let_def split: list.splits sum.splits
           dest: getitem_error)

lemma like_post_ignores_err:
  "inbox w = resp # rest \<Longrightarrow> fst (await (like_post post_id) w) = Inr True"
  by (simp add: like_post_def run_defs)

text \<open>
  Claim C2. On a response with no \<open>err\<close> entry, or with the empty list there, the body of
  \<^verbatim>\<open>_validate_result\<close> returns without raising, and the operations that read the answer
  go on to \<^verbatim>\<open>result["data"]\<close>: what \<open>login\<close>, \<open>comment_post\<close> and \<open>get_comments\<close> return
  is what the extraction of \<open>data\<close> gives.
\<close>

theorem validate_result_no_err:
  assumes "map_of r ''err'' = None \<or> map_of r ''err'' = Some (JList [])"
    and "inbox w = JObj r # rest"
  shows "await (validate_result (JObj r)) w = (Inr (), w)
     \<and> fst (await (login l p) w) =
         (case getitem (JObj r) ''data'' of Inl e \<Rightarrow> Inl e
          | Inr d \<Rightarrow> (case getitem d ''access_token'' of Inl e \<Rightarrow> Inl e | Inr t \<Rightarrow> Inr True))
     \<and> fst (await (comment_post post_id txt) w) =
         (case getitem (JObj r) ''data'' of Inl e \<Rightarrow> Inl e | Inr d \<Rightarrow> comment_of d)
     \<and> fst (await (get_comments post_id limit offset) w) =
         (case getitem (JObj r) ''data'' of Inl e \<Rightarrow> Inl e
          | Inr d \<Rightarrow> (case iterate d of Inl e \<Rightarrow> Inl e | Inr xs \<Rightarrow> comments_of xs))"
proof -
  have v: "await (validate_result (JObj r)) w = (Inr (), w)"
    using assms(1) by (auto simp add: validate_result_def run_defs)
  have l: "fst (await (login l p) w) =
         (case getitem (JObj r) ''data'' of Inl e \<Rightarrow> Inl e
          | Inr d \<Rightarrow> (case getitem d ''access_token'' of Inl e \<Rightarrow> Inl e | Inr t \<Rightarrow> Inr True))"
    using assms(2) by (simp add: login_def run_defs split: sum.splits option.splits)
  have c: "fst (await (comment_post post_id txt) w) =
         (case getitem (JObj r) ''data'' of Inl e \<Rightarrow> Inl e | Inr d \<Rightarrow> comment_of d)"
    using assms(2) by (simp add: comment_post_def run_defs split: sum.splits option.splits)
  have g: "fst (await (get_comments post_id limit offset) w) =
         (case getitem (JObj r) ''data'' of Inl e \<Rightarrow> Inl e
          | Inr d \<Rightarrow> (case iterate d of Inl e \<Rightarrow> Inl e | Inr xs \<Rightarrow> comments_of xs))"
    using assms(2) by (simp add: get_comments_def run_defs split: sum.splits option.splits)
  from v l c g show ?thesis by simp
qed

text \<open>Once with the \<open>err\<close> entry absent, once with the empty list.\<close>

theorem validate_result_no_err_witness:
  "await (validate_result (JObj [(''data'', JObj [(''access_token'', JStr ''tok-abc'')])]))
         \<lparr>token = JNull, sent = [],
          inbox = [JObj [(''data'', JObj [(''access_token'', JStr ''tok-abc'')])]]\<rparr>
     = (Inr (), \<lparr>token = JNull, sent = [],
          inbox = [JObj [(''data'', JObj [(''access_token'', JStr ''tok-abc'')])]]\<rparr>)
   \<and> fst (await (login ''alice'' ''secret'')
         \<lparr>token = JNull, sent = [],
          inbox = [JObj [(''data'', JObj [(''access_token'', JStr ''tok-abc'')])]]\<rparr>) = Inr True
   \<and> await (validate_result (JObj [(''err'', JList []), (''data'', JList [])]))
         \<lparr>token = JNull, sent = [], inbox = [JObj [(''err'', JList []), (''data'', JList [])]]\<rparr>
     = (Inr (), \<lparr>token = JNull, sent = [],
          inbox = [JObj [(''err'', JList []), (''data'', JList [])]]\<rparr>)
   \<and> fst (await (get_comments 5 10 0)
         \<lparr>token = JNull, sent = [], inbox = [JObj [(''err'', JList []), (''data'', JList [])]]\<rparr>)
     = Inr []"
  using validate_result_no_err
          [of "[(''data'', JObj [(''access_token'', JStr ''tok-abc'')])]"
              "\<lparr>token = JNull, sent = [],
                inbox = [JObj [(''data'', JObj [(''access_token'', JStr ''tok-abc'')])]]\<rparr>"
              "[]" "''alice''" "''secret''"]
        validate_result_no_err
          [of "[(''err'', JList []), (''data'', JList [])]"
              "\<lparr>token = JNull, sent = [],
                inbox = [JObj [(''err'', JList []), (''data'', JList [])]]\<rparr>"
              "[]" _ _ 5 _ 10 0]
  by simp

text \<open>
  Claim C10. On a response whose \<open>err\<close> entry is a non-empty list of zeros, such as
  \<^verbatim>\<open>[0]\<close>, the body of \<^verbatim>\<open>_validate_result\<close> returns without raising.
\<close>

theorem validate_result_all_zero:
  assumes "map_of r ''err'' = Some (JList zs)" and "zs \<noteq> []" and "\<forall>z\<in>set zs. z = JInt 0"
  shows "await (validate_result (JObj r)) w = (Inr (), w)"
proof -
  have "\<not> list_ex (eq_int n) zs" if "n \<noteq> 0" for n
    using assms(3) that by (auto simp: list_ex_iff)
  moreover have "\<not> list_ex truthy zs"
    using assms(3) by (auto simp: list_ex_iff)
  ultimately show ?thesis
    using assms(1,2) by (simp add: validate_result_def run_defs)
qed

theorem validate_result_all_zero_witness:
  "await (validate_result (JObj [(''err'', JList [JInt 0]), (''data'', JObj [])]))
         \<lparr>token = JNull, sent = [], inbox = []\<rparr>
     = (Inr (), \<lparr>token = JNull, sent = [], inbox = []\<rparr>)"
  using validate_result_all_zero
          [of "[(''err'', JList [JInt 0]), (''data'', JObj [])]" "[JInt 0]"
              "\<lparr>token = JNull, sent = [], inbox = []\<rparr>"]
  by simp


section \<open>Login and the session token\<close>

text \<open>
  Claim C3. \<open>login\<close> does not await \<^verbatim>\<open>_validate_result\<close>, so no error code of the
  response is turned into an exception. On the answer
  \<^verbatim>\<open>{"err": [103], "data": {}}\<close> the call ends in \<^verbatim>\<open>KeyError('access_token')\<close>, raised by
  the extraction of the token, and not in \<open>BadCredentialsError\<close>.
\<close>

theorem login_err_103_KeyError:
  "fst (await (login ''alice'' ''wrong'')
          \<lparr>token = JNull, sent = [],
           inbox = [JObj [(''err'', JList [JInt 103]), (''data'', JObj [])]]\<rparr>)
     = Inl (KeyError ''access_token'')"
  by (simp add: login_def run_defs)

text \<open>The same with code 102.\<close>

lemma login_err_102_KeyError:
  "fst (await (login ''nobody'' ''secret'')
          \<lparr>token = JNull, sent = [],
           inbox = [JObj [(''err'', JList [JInt 102]), (''data'', JObj [])]]\<rparr>)
     = Inl (KeyError ''access_token'')"
  by (simp add: login_def run_defs)

text \<open>When the rejected answer also carries a token, \<open>login\<close> stores it and returns \<open>True\<close>.\<close>

lemma login_err_103_accepted:
  "await (login ''alice'' ''wrong'')
      \<lparr>token = JNull, sent = [],
       inbox = [JObj [(''err'', JList [JInt 103]), (''data'', JObj [(''access_token'', JStr ''t'')])]]\<rparr>
     = (Inr True,
        \<lparr>token = JStr ''t'',
         sent = [\<lparr>verb = POST, url = ''https://api.grustnogram.ru/sessions'',
                  headers = base_headers,
                  data = Some (JObj [(''email'', JStr ''alice''), (''password'', JStr ''wrong'')])\<rparr>],
         inbox = []\<rparr>)"
  by (simp add: login_def run_defs)

text \<open>Whatever the server answers, \<open>login\<close> raises neither of the two typed errors.\<close>

lemma login_never_typed_error:
  "fst (await (login l p) w) \<noteq> Inl (BadCredentialsError m)
   \<and> fst (await (login l p) w) \<noteq> Inl (UserNotFoundError m)"
  by (cases "inbox w")
     (auto simp add: login_def run_defs split: sum.splits dest: getitem_error)

text \<open>
  Claim C4. \<^verbatim>\<open>login("alice", "secret")\<close> answered with
  \<^verbatim>\<open>{"err": [], "data": {"access_token": "tok-abc"}}\<close> returns \<open>True\<close> and sets the token to
  \<^verbatim>\<open>"tok-abc"\<close>; \<^verbatim>\<open>like_post(42)\<close> called next sends \<^verbatim>\<open>POST .../posts/42/like\<close> whose
  \<open>access-token\<close> header is \<^verbatim>\<open>"tok-abc"\<close>. The client's earlier state and the answers that
  follow are arbitrary.
\<close>

theorem login_then_like_post:
  "fst (await (login ''alice'' ''secret'')
          (w\<lparr>inbox := JObj [(''err'', JList []),
                            (''data'', JObj [(''access_token'', JStr ''tok-abc'')])] # rest\<rparr>))
     = Inr True
   \<and> token (snd (await (login ''alice'' ''secret'')
          (w\<lparr>inbox := JObj [(''err'', JList []),
                            (''data'', JObj [(''access_token'', JStr ''tok-abc'')])] # rest\<rparr>)))
     = JStr ''tok-abc''
   \<and> sent (snd (await (like_post 42) (snd (await (login ''alice'' ''secret'')
          (w\<lparr>inbox := JObj [(''err'', JList []),
                            (''data'', JObj [(''access_token'', JStr ''tok-abc'')])] # rest\<rparr>)))))
     = sent w @
       [\<lparr>verb = POST, url = ''https://api.grustnogram.ru/sessions'', headers = base_headers,
         data = Some (JObj [(''email'', JStr ''alice''), (''password'', JStr ''secret'')])\<rparr>,
        \<lparr>verb = POST, url = ''https://api.grustnogram.ru/posts/42/like'',
         headers = [(''accept'', JStr ''application/json''),
                    (''content-type'', JStr ''application/x-www-form-urlencoded''),
                    (''user-agent'', JStr ''Python SDK''),
                    (''access-token'', JStr ''tok-abc'')],
         data = None\<rparr>]"
  by (simp add: login_def like_post_def run_defs str_int_42 auth_headers_def base_headers_def
           split: list.splits)

text \<open>
  For any token value: the authenticated request that follows a login carries the value
  the login answer held under \<open>access_token\<close>.
\<close>

lemma login_token_attached:
  "map headers (sent (snd (await (like_post post_id) (snd (await (login l p)
          (w\<lparr>inbox := JObj [(''err'', JList []), (''data'', JObj [(''access_token'', t)])] # rest\<rparr>))))))
     = map headers (sent w) @ [base_headers, auth_headers t]"
  by (simp add: login_def like_post_def run_defs split: list.splits)

text \<open>
  Claim C6. None of \<open>like_post\<close>, \<open>dislike_post\<close>, \<open>like_comment\<close>, \<open>dislike_comment\<close>,
  \<open>comment_post\<close>, \<open>delete_comment\<close>, \<open>get_comments\<close>, \<open>complaint\<close>, \<open>delete_post\<close> changes
  the token, whatever the arguments, the client's state and the server's answer.
\<close>

theorem token_frame:
  "token (snd (await (like_post post_id) w)) = token w
   \<and> token (snd (await (dislike_post post_id) w)) = token w
   \<and> token (snd (await (like_comment comment_id) w)) = token w
   \<and> token (snd (await (dislike_comment comment_id) w)) = token w
   \<and> token (snd (await (comment_post post_id txt) w)) = token w
   \<and> token (snd (await (delete_comment comment_id) w)) = token w
   \<and> token (snd (await (get_comments post_id limit offset) w)) = token w
   \<and> token (snd (await (complaint post_id complaint_type text_opt) w)) = token w
   \<and> token (snd (await (delete_post post_id) w)) = token w"
proof -
  have 1: "token (snd (await (like_post post_id) w)) = token w"
    by (simp add: like_post_def run_defs split: list.splits)
  have 2: "token (snd (await (dislike_post post_id) w)) = token w"
    by (simp add: dislike_post_def run_defs split: list.splits)
  have 3: "token (snd (await (like_comment comment_id) w)) = token w"
    by (simp add: like_comment_def run_defs split: list.splits)
  have 4: "token (snd (await (dislike_comment comment_id) w)) = token w"
    by (simp add: dislike_comment_def run_defs split: list.splits)
  have 5: "token (snd (await (comment_post post_id txt) w)) = token w"
    by (simp add: comment_post_def run_defs split: list.splits sum.splits)
  have 6: "token (snd (await (delete_comment comment_id) w)) = token w"
    by (simp add: delete_comment_def run_defs split: list.splits)
  have 7: "token (snd (await (get_comments post_id limit offset) w)) = token w"
    by (simp add: get_comments_def run_defs split: list.splits sum.splits)
  have 8: "token (snd (await (complaint post_id complaint_type text_opt) w)) = token w"
    by (simp add: complaint_def run_defs split: list.splits)
  have 9: "token (snd (await (delete_post post_id) w)) = token w"
    by (simp add: delete_post_def run_defs split: list.splits)
  from 1 2 3 4 5 6 7 8 9 show ?thesis by simp
qed

text \<open>Each of them reads the token: it is the \<open>access-token\<close> header of the one request sent.\<close>

lemma token_read:
  "map headers (sent (snd (await (like_post post_id) w))) = map headers (sent w) @ [auth_headers (token w)]"
  "map headers (sent (snd (await (dislike_post post_id) w))) = map headers (sent w) @ [auth_headers (token w)]"
  "map headers (sent (snd (await (like_comment comment_id) w))) = map headers (sent w) @ [auth_headers (token w)]"
  "map headers (sent (snd (await (dislike_comment comment_id) w))) = map headers (sent w) @ [auth_headers (token w)]"
  "map headers (sent (snd (await (comment_post post_id txt) w))) = map headers (sent w) @ [auth_headers (token w)]"
  "map headers (sent (snd (await (delete_comment comment_id) w))) = map headers (sent w) @ [auth_headers (token w)]"
  "map headers (sent (snd (await (get_comments post_id limit offset) w))) = map headers (sent w) @ [auth_headers (token w)]"
  "map headers (sent (snd (await (complaint post_id complaint_type text_opt) w))) = map headers (sent w) @ [auth_headers (token w)]"
  "map headers (sent (snd (await (delete_post post_id) w))) = map headers (sent w) @ [auth_headers (token w)]"
  by (simp_all add: like_post_def dislike_post_def like_comment_def dislike_comment_def
        comment_post_def delete_comment_def get_comments_def complaint_def delete_post_def
        run_defs split: list.splits sum.splits)

text \<open>The writer: a login that succeeds stores the token it was sent.\<close>

lemma login_writes_token:
  "fst (await (login l p) w) = Inr b \<Longrightarrow>
   \<exists>resp rest d. inbox w = resp # rest \<and> getitem resp ''data'' = Inr d
      \<and> getitem d ''access_token'' = Inr (token (snd (await (login l p) w)))"
  by (cases "inbox w") (auto simp add: login_def run_defs split: sum.splits)


section \<open>Comments\<close>

lemma comment_of_fields:
  assumes "comment_of c = Inr x"
  shows "getitem c ''id'' = Inr (Comment.uid x)
       \<and> getitem c ''nickname'' = Inr (Comment.nickname x)
       \<and> getitem c ''comment'' = Inr (Comment.comment x)
       \<and> getitem c ''created_at'' = Inr (Comment.created_at x)"
  using assms by (auto simp: comment_of_def split: sum.splits)

lemma comments_of_length: "comments_of objs = Inr cs \<Longrightarrow> length cs = length objs"
  by (induction objs arbitrary: cs) (auto split: sum.splits)

lemma comments_of_nth:
  "comments_of objs = Inr cs \<Longrightarrow> i < length objs \<Longrightarrow> comment_of (objs ! i) = Inr (cs ! i)"
proof (induction objs arbitrary: cs i)
  case Nil
  then show ?case by simp
next
  case (Cons c objs)
  then show ?case
    by (cases i) (auto split: sum.splits)
qed

lemma get_comments_result:
  "inbox w = resp # rest \<Longrightarrow> getitem resp ''data'' = Inr (JList objs) \<Longrightarrow>
   fst (await (get_comments post_id limit offset) w) = comments_of objs"
  by (simp add: get_comments_def run_defs)

text \<open>
  Claim C5. When \<open>get_comments\<close> returns and the \<open>data\<close> entry of the answer is a list of
  \<open>n\<close> objects, the result is a list of \<open>n\<close> comments, and the \<open>i\<close>-th comment holds the
  entries \<open>id\<close>, \<open>nickname\<close>, \<open>comment\<close> and \<open>created_at\<close> of the \<open>i\<close>-th object.
\<close>

theorem get_comments_maps_data:
  assumes "inbox w = resp # rest"
    and "getitem resp ''data'' = Inr (JList objs)"
    and "fst (await (get_comments post_id limit offset) w) = Inr cs"
  shows "length cs = length objs
     \<and> (\<forall>i<length objs.
           getitem (objs ! i) ''id'' = Inr (Comment.uid (cs ! i))
         \<and> getitem (objs ! i) ''nickname'' = Inr (Comment.nickname (cs ! i))
         \<and> getitem (objs ! i) ''comment'' = Inr (Comment.comment (cs ! i))
         \<and> getitem (objs ! i) ''created_at'' = Inr (Comment.created_at (cs ! i)))"
proof -
  have r: "comments_of objs = Inr cs"
    using assms get_comments_result by metis
  show ?thesis
    using comments_of_length [OF r] comments_of_nth [OF r] comment_of_fields by blast
qed

text \<open>Three comments in the answer, three in the result, in the server's order.\<close>

theorem get_comments_maps_data_witness:
  "fst (await (get_comments 5 10 0)
     \<lparr>token = JStr ''tok-abc'', sent = [],
      inbox = [JObj [(''err'', JList []), (''data'', JList [
        JObj [(''id'', JInt 1), (''nickname'', JStr ''ann''), (''comment'', JStr ''a''), (''created_at'', JInt 10)],
        JObj [(''id'', JInt 2), (''nickname'', JStr ''bob''), (''comment'', JStr ''b''), (''created_at'', JInt 20)],
        JObj [(''id'', JInt 3), (''nickname'', JStr ''cy''), (''comment'', JStr ''c''), (''created_at'', JInt 30)]])]]\<rparr>)
    = Inr [\<lparr>uid = JInt 1, nickname = JStr ''ann'', comment = JStr ''a'', created_at = JInt 10\<rparr>,
           \<lparr>uid = JInt 2, nickname = JStr ''bob'', comment = JStr ''b'', created_at = JInt 20\<rparr>,
           \<lparr>uid = JInt 3, nickname = JStr ''cy'', comment = JStr ''c'', created_at = JInt 30\<rparr>]
   \<and> length [\<lparr>uid = JInt 1, nickname = JStr ''ann'', comment = JStr ''a'', created_at = JInt 10\<rparr>,
           \<lparr>uid = JInt 2, nickname = JStr ''bob'', comment = JStr ''b'', created_at = JInt 20\<rparr>,
           \<lparr>uid = JInt 3, nickname = JStr ''cy'', comment = JStr ''c'', created_at = JInt 30\<rparr>] = (3::nat)"
  using get_comments_maps_data [of
     "\<lparr>token = JStr ''tok-abc'', sent = [],
      inbox = [JObj [(''err'', JList []), (''data'', JList [
        JObj [(''id'', JInt 1), (''nickname'', JStr ''ann''), (''comment'', JStr ''a''), (''created_at'', JInt 10)],
        JObj [(''id'', JInt 2), (''nickname'', JStr ''bob''), (''comment'', JStr ''b''), (''created_at'', JInt 20)],
        JObj [(''id'', JInt 3), (''nickname'', JStr ''cy''), (''comment'', JStr ''c''), (''created_at'', JInt 30)]])]]\<rparr>"
     "JObj [(''err'', JList []), (''data'', JList [
        JObj [(''id'', JInt 1), (''nickname'', JStr ''ann''), (''comment'', JStr ''a''), (''created_at'', JInt 10)],
        JObj [(''id'', JInt 2), (''nickname'', JStr ''bob''), (''comment'', JStr ''b''), (''created_at'', JInt 20)],
        JObj [(''id'', JInt 3), (''nickname'', JStr ''cy''), (''comment'', JStr ''c''), (''created_at'', JInt 30)]])]"
     "[]"
     "[JObj [(''id'', JInt 1), (''nickname'', JStr ''ann''), (''comment'', JStr ''a''), (''created_at'', JInt 10)],
       JObj [(''id'', JInt 2), (''nickname'', JStr ''bob''), (''comment'', JStr ''b''), (''created_at'', JInt 20)],
       JObj [(''id'', JInt 3), (''nickname'', JStr ''cy''), (''comment'', JStr ''c''), (''created_at'', JInt 30)]]"
     5 10 0
     "[\<lparr>uid = JInt 1, nickname = JStr ''ann'', comment = JStr ''a'', created_at = JInt 10\<rparr>,
       \<lparr>uid = JInt 2, nickname = JStr ''bob'', comment = JStr ''b'', created_at = JInt 20\<rparr>,
       \<lparr>uid = JInt 3, nickname = JStr ''cy'', comment = JStr ''c'', created_at = JInt 30\<rparr>]"]
  by (simp add: get_comments_def run_defs comment_of_def)

text \<open>The call does return when every object of the list has the four entries.\<close>

lemma get_comments_succeeds:
  assumes "inbox w = resp # rest"
    and "getitem resp ''data'' = Inr (JList objs)"
    and "\<forall>c\<in>set objs. \<exists>x. comment_of c = Inr x"
  shows "\<exists>cs. fst (await (get_comments post_id limit offset) w) = Inr cs"
proof -
  have "\<exists>cs. comments_of objs = Inr cs"
    using assms(3) by (induction objs) auto
  then show ?thesis
    using assms(1,2) get_comments_result by metis
qed

section \<open>Registration and complaints\<close>

text \<open>
  Claim C7. When the code provider returns \<^verbatim>\<open>"1234"\<close> and \<open>register\<close> gets as far as a
  third request, that request is \<^verbatim>\<open>POST .../phoneactivate\<close> and its body has \<^verbatim>\<open>"1234"\<close>
  under \<open>code\<close>, next to the phone number.
\<close>

theorem register_code_in_third_request:
  assumes "code_handler () = JStr ''1234''"
    and "sent (snd (await (register nick email password phone code_handler) w)) = sent w @ reqs"
    and "2 < length reqs"
  shows "reqs ! 2 = \<lparr>verb = POST, url = ''https://api.grustnogram.ru/phoneactivate'',
           headers = base_headers,
           data = Some (JObj [(''code'', JStr ''1234''), (''phone'', JStr phone)])\<rparr>"
  using assms
  by (auto simp add: register_def run_defs Let_def split: list.splits sum.splits)

text \<open>A registration that runs through its three steps.\<close>

theorem register_code_in_third_request_witness:
  "sent (snd (await (register ''ann'' ''ann@example.org'' ''pw'' ''+70000000000'' (\<lambda>_. JStr ''1234''))
      \<lparr>token = JNull, sent = [],
       inbox = [JObj [(''err'', JList []), (''data'', JObj [(''phone_key'', JStr ''k'')])],
                JObj [(''err'', JList [])],
                JObj [(''err'', JList []), (''data'', JObj [(''access_token'', JStr ''tok-abc'')])]]\<rparr>))
   = [] @
     [\<lparr>verb = POST, url = ''https://api.grustnogram.ru/users'', headers = base_headers,
       data = Some (JObj [(''nickname'', JStr ''ann''), (''email'', JStr ''ann@example.org''),
                          (''password'', JStr ''pw''), (''password_confirm'', JStr ''pw'')])\<rparr>,
      \<lparr>verb = POST, url = ''https://api.grustnogram.ru/callme'', headers = base_headers,
       data = Some (JObj [(''phone_key'', JStr ''k''), (''phone'', JStr ''+70000000000'')])\<rparr>,
      \<lparr>verb = POST, url = ''https://api.grustnogram.ru/phoneactivate'', headers = base_headers,
       data = Some (JObj [(''code'', JStr ''1234''), (''phone'', JStr ''+70000000000'')])\<rparr>]
   \<and> [\<lparr>verb = POST, url = ''https://api.grustnogram.ru/users'', headers = base_headers,
       data = Some (JObj [(''nickname'', JStr ''ann''), (''email'', JStr ''ann@example.org''),
                          (''password'', JStr ''pw''), (''password_confirm'', JStr ''pw'')])\<rparr>,
      \<lparr>verb = POST, url = ''https://api.grustnogram.ru/callme'', headers = base_headers,
       data = Some (JObj [(''phone_key'', JStr ''k''), (''phone'', JStr ''+70000000000'')])\<rparr>,
      \<lparr>verb = POST, url = ''https://api.grustnogram.ru/phoneactivate'', headers = base_headers,
       data = Some (JObj [(''code'', JStr ''1234''), (''phone'', JStr ''+70000000000'')])\<rparr>] ! 2
     = \<lparr>verb = POST, url = ''https://api.grustnogram.ru/phoneactivate'', headers = base_headers,
        data = Some (JObj [(''code'', JStr ''1234''), (''phone'', JStr ''+70000000000'')])\<rparr>"
  using register_code_in_third_request [of "\<lambda>_. JStr ''1234''"
      "''ann''" "''ann@example.org''" "''pw''" "''+70000000000''"
      "\<lparr>token = JNull, sent = [],
       inbox = [JObj [(''err'', JList []), (''data'', JObj [(''phone_key'', JStr ''k'')])],
                JObj [(''err'', JList [])],
                JObj [(''err'', JList []), (''data'', JObj [(''access_token'', JStr ''tok-abc'')])]]\<rparr>"
      "[\<lparr>verb = POST, url = ''https://api.grustnogram.ru/users'', headers = base_headers,
       data = Some (JObj [(''nickname'', JStr ''ann''), (''email'', JStr ''ann@example.org''),
                          (''password'', JStr ''pw''), (''password_confirm'', JStr ''pw'')])\<rparr>,
      \<lparr>verb = POST, url = ''https://api.grustnogram.ru/callme'', headers = base_headers,
       data = Some (JObj [(''phone_key'', JStr ''k''), (''phone'', JStr ''+70000000000'')])\<rparr>,
      \<lparr>verb = POST, url = ''https://api.grustnogram.ru/phoneactivate'', headers = base_headers,
       data = Some (JObj [(''code'', JStr ''1234''), (''phone'', JStr ''+70000000000'')])\<rparr>]"]
  by (simp add: register_def run_defs)

text \<open>
  Claim C8. \<^verbatim>\<open>complaint(post_id, 2)\<close> with no text sends one request,
  \<^verbatim>\<open>POST .../posts/{post_id}/complaint\<close>, whose body has the integer 2 under \<open>type\<close> and
  \<open>null\<close> under \<open>text\<close>.
\<close>

theorem complaint_body:
  "sent (snd (await (complaint post_id 2 None) w)) = sent w @
     [\<lparr>verb = POST,
       url = ''https://api.grustnogram.ru/posts/'' @ str_int post_id @ ''/complaint'',
       headers = auth_headers (token w),
       data = Some (JObj [(''type'', JInt 2), (''text'', JNull)])\<rparr>]"
  by (simp add: complaint_def run_defs split: list.splits)

section \<open>Entities\<close>

text \<open>
  Claim C9. A comment that \<open>get_comments\<close> returned has no \<open>_client\<close>: its \<open>delete\<close> raises
  \<^verbatim>\<open>AttributeError\<close> and sends nothing, so no operation of the client is invoked.
\<close>

theorem Comment_delete_raises:
  "fst (await (get_comments 5 10 0)
     \<lparr>token = JStr ''tok-abc'', sent = [],
      inbox = [JObj [(''err'', JList []), (''data'', JList [
        JObj [(''id'', JInt 1), (''nickname'', JStr ''bob''), (''comment'', JStr ''hi''),
              (''created_at'', JInt 0)]])]]\<rparr>)
     = Inr [\<lparr>uid = JInt 1, nickname = JStr ''bob'', comment = JStr ''hi'', created_at = JInt 0\<rparr>]
   \<and> await (Comment_delete
              \<lparr>uid = JInt 1, nickname = JStr ''bob'', comment = JStr ''hi'', created_at = JInt 0\<rparr>)
        \<lparr>token = JStr ''tok-abc'', sent = [], inbox = [JObj [(''err'', JList [])]]\<rparr>
     = (Inl (AttributeError ''_client''),
        \<lparr>token = JStr ''tok-abc'', sent = [], inbox = [JObj [(''err'', JList [])]]\<rparr>)"
  by (simp add: get_comments_def comment_of_def Comment_delete_def Comment_client_def run_defs)

text \<open>The same for every method of every comment and post, in every state.\<close>

lemma entity_methods_raise:
  "await (Comment_delete c) w = (Inl (AttributeError ''_client''), w)"
  "await (Comment_like c) w = (Inl (AttributeError ''_client''), w)"
  "await (Comment_dislike c) w = (Inl (AttributeError ''_client''), w)"
  "await (Post_delete p) w = (Inl (AttributeError ''_client''), w)"
  "await (Post_like p) w = (Inl (AttributeError ''_client''), w)"
  "await (Post_dislike p) w = (Inl (AttributeError ''_client''), w)"
  "await (Post_comment p txt) w = (Inl (AttributeError ''_client''), w)"
  by (simp_all add: Comment_delete_def Comment_like_def Comment_dislike_def Comment_client_def
        Post_delete_def Post_like_def Post_dislike_def Post_comment_def Post_client_def run_defs)

end
